theory Spec2Isabelle
  imports Main "HOL-Library.Word"
begin

section \<open>Entity model (\<^verbatim>\<open>app/models.py\<close>)\<close>

text \<open>
  The database is SQLite (\<^verbatim>\<open>DATABASE_URL = "sqlite:///./test.db"\<close>). An
  \<^verbatim>\<open>Integer\<close> primary key column holds an SQLite INTEGER: a signed 64-bit value,
  read as a number by \<^const>\<open>sint\<close>.
\<close>

type_synonym rowid = "64 word"

text \<open>
  \<^verbatim>\<open>class Item(Base)\<close>: the columns \<^verbatim>\<open>id\<close>, \<^verbatim>\<open>name\<close>,
  \<^verbatim>\<open>description\<close>, \<^verbatim>\<open>model_data\<close>. The three data columns are nullable
  (no \<^verbatim>\<open>nullable=False\<close>), hence optional; the payload is an opaque byte string.
\<close>

record Item =
  Item_id :: rowid
  name :: "string option"
  description :: "string option"
  model_data :: "string option"

text \<open>
  Modelled from the spec: the row type \<^verbatim>\<open>Project\<close>, imported by the router from
  \<^verbatim>\<open>app.models\<close> but not declared in the available \<^verbatim>\<open>models.py\<close>. The spec
  gives it a primary key and details no other field.
\<close>

record Project =
  Project_id :: rowid

text \<open>
  Modelled from the spec: the request schema \<^verbatim>\<open>InstanceCreate\<close> of
  \<^verbatim>\<open>app.schemas\<close>: \<^verbatim>\<open>project_id\<close>, \<^verbatim>\<open>item_id\<close> and nine numeric transform
  fields, all required. The two keys are Python integers, of any size. The router only
  stores and returns the numeric values, so their type is the parameter \<open>'n\<close>.
\<close>

record 'n InstanceCreate =
  project_id :: int
  item_id :: int
  position_x :: 'n
  position_y :: 'n
  position_z :: 'n
  rotation_x :: 'n
  rotation_y :: 'n
  rotation_z :: 'n
  scale_x :: 'n
  scale_y :: 'n
  scale_z :: 'n

text \<open>
  Modelled from the spec: the row type \<^verbatim>\<open>Instance\<close> (and the response schema
  \<^verbatim>\<open>InstanceRead\<close>), neither declared in the available sources: all fields of
  \<^verbatim>\<open>InstanceCreate\<close> plus the server-generated integer primary key \<^verbatim>\<open>id\<close>.
\<close>

record 'n Instance = "'n InstanceCreate" +
  Instance_id :: rowid

section \<open>The session: one table per entity\<close>

text \<open>
  The state a \<^verbatim>\<open>Session\<close> reads and commits to. Each table is the list of its rows
  in storage order; a new row goes to the end.
\<close>

record 'n Session =
  projects :: "Project list"
  items :: "Item list"
  instances :: "'n Instance list"

text \<open>
  \<^verbatim>\<open>HTTPException(status_code=..., detail=...)\<close> is the only exception the router
  raises itself. The others come from below it: \<^verbatim>\<open>OverflowError\<close> from the SQLite
  driver when a query parameter is a Python integer that is no SQLite INTEGER,
  \<^verbatim>\<open>OperationalError\<close> when the engine cannot store a row, and
  \<^verbatim>\<open>InvalidRequestError\<close> from \<^verbatim>\<open>db.refresh\<close> when the row it is asked to
  reload is no longer stored. The router catches none of them.
\<close>

datatype error = HTTPException int string | OverflowError | OperationalError | InvalidRequestError

definition sqlite_integer :: "int \<Rightarrow> bool" where
  "sqlite_integer k \<longleftrightarrow> - (2 ^ 63) \<le> k \<and> k < 2 ^ 63"

text \<open>
  \<^verbatim>\<open>db.query(T).filter(T.id == k).first()\<close>: the parameter \<open>k\<close> is bound first,
  which fails outside the 64-bit range; the result is the first row of the table under
  that key, or \<^verbatim>\<open>None\<close>.
\<close>

definition query_first :: "('r \<Rightarrow> rowid) \<Rightarrow> int \<Rightarrow> 'r list \<Rightarrow> error + 'r option" where
  "query_first pk k rows =
     (if sqlite_integer k then Inr (find (\<lambda>r. sint (pk r) = k) rows) else Inl OverflowError)"

text \<open>
  Modelled from the spec: the server-generated primary key. The table declaration and
  the storage engine are not part of the sources; an integer primary key without an
  explicit value receives 1 in an empty table and otherwise one more than the largest
  key in use (the spec's scenario: the first row created gets id 1).
\<close>

definition next_rowid :: "int list \<Rightarrow> int" where
  "next_rowid ks = (case ks of [] \<Rightarrow> 1 | k # ks' \<Rightarrow> fold max ks' k + 1)"

text \<open>
  Modelled from the spec: when the largest key in use is the largest 64-bit integer, the
  engine takes a positive key that is not in use, and the insert fails when there is
  none. Which unused key it takes is not determined; the model takes the least.
\<close>

function first_unused :: "int \<Rightarrow> int list \<Rightarrow> int option" where
  "first_unused c ks =
     (if 2 ^ 63 \<le> c then None
      else if c \<notin> set ks then Some c
      else first_unused (c + 1) ks)"
  by pat_completeness auto
termination
  by (relation "measure (\<lambda>(c, ks). nat (2 ^ 63 - c))") auto

declare first_unused.simps [simp del]

definition new_rowid :: "int list \<Rightarrow> int option" where
  "new_rowid ks = (let k = next_rowid ks in if k < 2 ^ 63 then Some k else first_unused 1 ks)"

text \<open>
  \<^verbatim>\<open>db.add(new_instance); db.commit()\<close>: the pending object has no key yet; the
  commit inserts it as a new last row, under the key the engine generates, and stores
  nothing when the engine finds no key.
\<close>

definition add_commit ::
  "'n InstanceCreate \<Rightarrow> 'n Session \<Rightarrow> error + rowid \<times> 'n Session" where
  "add_commit new_instance db =
     (case new_rowid (map (\<lambda>r. sint (Instance_id r)) (instances db)) of
        None \<Rightarrow> Inl OperationalError
      | Some k \<Rightarrow>
          let row = \<lparr>project_id = project_id new_instance,
                     item_id = item_id new_instance,
                     position_x = position_x new_instance,
                     position_y = position_y new_instance,
                     position_z = position_z new_instance,
                     rotation_x = rotation_x new_instance,
                     rotation_y = rotation_y new_instance,
                     rotation_z = rotation_z new_instance,
                     scale_x = scale_x new_instance,
                     scale_y = scale_y new_instance,
                     scale_z = scale_z new_instance,
                     Instance_id = word_of_int k\<rparr>
          in Inr (word_of_int k, db\<lparr>instances := instances db @ [row]\<rparr>))"

text \<open>
  \<^verbatim>\<open>db.commit()\<close> with a modified persistent object: the row stored under the key
  the object was loaded with is rewritten with all the attributes the object has now, its
  \<^verbatim>\<open>id\<close> included (\<^verbatim>\<open>UPDATE instances SET ... WHERE id = <loaded key>\<close>).
\<close>

definition update_commit :: "rowid \<Rightarrow> 'n Instance \<Rightarrow> 'n Session \<Rightarrow> 'n Session" where
  "update_commit loaded obj db =
     db\<lparr>instances := map (\<lambda>r. if Instance_id r = loaded then obj else r) (instances db)\<rparr>"

text \<open>
  \<^verbatim>\<open>db.delete(instance); db.commit()\<close>: the row under the key the object was loaded
  with is removed.
\<close>

definition delete_commit :: "rowid \<Rightarrow> 'n Session \<Rightarrow> 'n Session" where
  "delete_commit loaded db =
     db\<lparr>instances := filter (\<lambda>r. Instance_id r \<noteq> loaded) (instances db)\<rparr>"

text \<open>
  \<^verbatim>\<open>db.refresh(obj)\<close>: the attributes are loaded again from the row under the
  object's key. The key is one the engine holds, so binding it cannot fail.
\<close>

definition refresh :: "'n Session \<Rightarrow> rowid \<Rightarrow> error + 'n Instance" where
  "refresh db k =
     (case find (\<lambda>r. Instance_id r = k) (instances db) of
        None \<Rightarrow> Inl InvalidRequestError
      | Some r \<Rightarrow> Inr r)"

section \<open>The instance router (\<^verbatim>\<open>app/routes/instances_routes.py\<close>)\<close>

text \<open>
  Every handler takes the session and returns its result together with the session
  after the call. An exception raised by a query leaves the handler at that line: in
  \<^verbatim>\<open>create_instance\<close> and \<^verbatim>\<open>update_instance\<close> the project query and the item
  query both run before the first test for \<^verbatim>\<open>None\<close>.
\<close>

definition create_instance ::
  "'n InstanceCreate \<Rightarrow> 'n Session \<Rightarrow> (error + 'n Instance) \<times> 'n Session" where
  "create_instance inst db =
     (case query_first Project_id (project_id inst) (projects db) of
        Inl e \<Rightarrow> (Inl e, db)
      | Inr project \<Rightarrow>
     (case query_first Item_id (item_id inst) (items db) of
        Inl e \<Rightarrow> (Inl e, db)
      | Inr item \<Rightarrow>
          if project = None then (Inl (HTTPException 404 ''Project not found''), db)
          else if item = None then (Inl (HTTPException 404 ''Item not found''), db)
          else
            let new_instance = \<lparr>project_id = project_id inst,
                                 item_id = item_id inst,
                                 position_x = position_x inst,
                                 position_y = position_y inst,
                                 position_z = position_z inst,
                                 rotation_x = rotation_x inst,
                                 rotation_y = rotation_y inst,
                                 rotation_z = rotation_z inst,
                                 scale_x = scale_x inst,
                                 scale_y = scale_y inst,
                                 scale_z = scale_z inst\<rparr>
            in (case add_commit new_instance db of
                  Inl e \<Rightarrow> (Inl e, db)
                | Inr (k, db') \<Rightarrow> (refresh db' k, db'))))"

definition update_instance ::
  "int \<Rightarrow> 'n InstanceCreate \<Rightarrow> 'n Session \<Rightarrow> (error + 'n Instance) \<times> 'n Session" where
  "update_instance instance_id instance_update db =
     (case query_first Instance_id instance_id (instances db) of
        Inl e \<Rightarrow> (Inl e, db)
      | Inr None \<Rightarrow> (Inl (HTTPException 404 ''Instance not found''), db)
      | Inr (Some existing_instance) \<Rightarrow>
     (case query_first Project_id (project_id instance_update) (projects db) of
        Inl e \<Rightarrow> (Inl e, db)
      | Inr project \<Rightarrow>
     (case query_first Item_id (item_id instance_update) (items db) of
        Inl e \<Rightarrow> (Inl e, db)
      | Inr item \<Rightarrow>
          if project = None then (Inl (HTTPException 404 ''Project not found''), db)
          else if item = None then (Inl (HTTPException 404 ''Item not found''), db)
          else
            let existing_instance' = existing_instance
                  \<lparr>project_id := project_id instance_update,
                   item_id := item_id instance_update,
                   position_x := position_x instance_update,
                   position_y := position_y instance_update,
                   position_z := position_z instance_update,
                   rotation_x := rotation_x instance_update,
                   rotation_y := rotation_y instance_update,
                   rotation_z := rotation_z instance_update,
                   scale_x := scale_x instance_update,
                   scale_y := scale_y instance_update,
                   scale_z := scale_z instance_update\<rparr>;
                db' = update_commit (Instance_id existing_instance) existing_instance' db
            in (refresh db' (Instance_id existing_instance'), db'))))"

definition get_instance :: "int \<Rightarrow> 'n Session \<Rightarrow> (error + 'n Instance) \<times> 'n Session" where
  "get_instance instance_id db =
     (case query_first Instance_id instance_id (instances db) of
        Inl e \<Rightarrow> (Inl e, db)
      | Inr None \<Rightarrow> (Inl (HTTPException 404 ''Instance not found''), db)
      | Inr (Some inst) \<Rightarrow> (Inr inst, db))"

definition list_instances :: "'n Session \<Rightarrow> 'n Instance list \<times> 'n Session" where
  "list_instances db = (instances db, db)"

definition delete_instance ::
  "int \<Rightarrow> 'n Session \<Rightarrow> (error + (string \<times> string) list) \<times> 'n Session" where
  "delete_instance instance_id db =
     (case query_first Instance_id instance_id (instances db) of
        Inl e \<Rightarrow> (Inl e, db)
      | Inr None \<Rightarrow> (Inl (HTTPException 404 ''Instance not found''), db)
      | Inr (Some inst) \<Rightarrow>
          (Inr [(''message'', ''Instance deleted successfully'')],
           delete_commit (Instance_id inst) db))"

text \<open>
  A client issuing create requests one after the other: the rows of the successful
  ones, in order, and the session at the end.
\<close>

fun create_all :: "'n InstanceCreate list \<Rightarrow> 'n Session \<Rightarrow> 'n Instance list \<times> 'n Session" where
  "create_all [] db = ([], db)"
| "create_all (x # xs) db =
     (case create_instance x db of
        (Inl e, db') \<Rightarrow> create_all xs db'
      | (Inr row, db') \<Rightarrow> (case create_all xs db' of (rows, db'') \<Rightarrow> (row # rows, db'')))"

section \<open>Notation for the statements, and a seeded database\<close>

text \<open>The row that carries every field of a request body \<open>x\<close> under the primary key \<open>k\<close>.\<close>

abbreviation row_of :: "'n InstanceCreate \<Rightarrow> rowid \<Rightarrow> 'n Instance" where
  "row_of x k \<equiv>
     \<lparr>project_id = project_id x, item_id = item_id x,
      position_x = position_x x, position_y = position_y x, position_z = position_z x,
      rotation_x = rotation_x x, rotation_y = rotation_y x, rotation_z = rotation_z x,
      scale_x = scale_x x, scale_y = scale_y x, scale_z = scale_z x,
      Instance_id = k\<rparr>"

text \<open>
  The scenario of the spec: a database seeded with Project 1 and Item 1, and the request
  placing that item at the origin, unrotated, at scale 1. A second database holds the
  row that request creates.
\<close>

definition seed_db :: "int Session" where
  "seed_db = \<lparr>projects = [\<lparr>Project_id = 1\<rparr>],
              items = [\<lparr>Item_id = 1, name = Some ''cube'', description = None, model_data = None\<rparr>],
              instances = []\<rparr>"

definition seed_request :: "int InstanceCreate" where
  "seed_request = \<lparr>project_id = 1, item_id = 1,
                   position_x = 0, position_y = 0, position_z = 0,
                   rotation_x = 0, rotation_y = 0, rotation_z = 0,
                   scale_x = 1, scale_y = 1, scale_z = 1\<rparr>"

definition placed_db :: "int Session" where
  "placed_db = seed_db\<lparr>instances := [row_of seed_request 1]\<rparr>"

section \<open>Keys and queries\<close>

lemma sint_rowid_range: "sqlite_integer (sint (w::rowid))"
  using sint_ge [of w] sint_lt [of w] by (simp add: sqlite_integer_def)

lemma sint_word_of_int_rowid: "sqlite_integer k \<Longrightarrow> sint (word_of_int k :: rowid) = k"
  by (simp add: sqlite_integer_def sint_sbintrunc' signed_take_bit_int_eq_self)

lemma word_of_int_sint_rowid: "sint (w::rowid) = k \<Longrightarrow> word_of_int k = w"
  by auto

lemma stored_key_range:
  "k \<in> sint ` (pk :: 'r \<Rightarrow> rowid) ` set rows \<Longrightarrow> sqlite_integer k"
  by (auto simp: sint_rowid_range)

lemma find_key_None:
  "find (\<lambda>r. sint (pk r) = k) rows = None \<longleftrightarrow> k \<notin> sint ` pk ` set rows"
  by (auto simp: find_None_iff)

lemma query_first_overflow:
  "\<not> sqlite_integer k \<Longrightarrow> query_first pk k rows = Inl OverflowError"
  by (simp add: query_first_def)

lemma query_first_unresolved:
  "sqlite_integer k \<Longrightarrow> k \<notin> sint ` pk ` set rows \<Longrightarrow> query_first pk k rows = Inr None"
  by (simp add: query_first_def find_key_None)

lemma query_first_resolved:
  assumes "k \<in> sint ` pk ` set rows"
  shows "\<exists>r. query_first pk k rows = Inr (Some r) \<and> sint (pk r) = k \<and> r \<in> set rows"
proof -
  have "find (\<lambda>r. sint (pk r) = k) rows \<noteq> None"
    using assms by (simp add: find_key_None)
  then obtain r where r: "find (\<lambda>r. sint (pk r) = k) rows = Some r" by auto
  then have "sint (pk r) = k \<and> r \<in> set rows"
    by (auto simp: find_Some_iff)
  with r stored_key_range [OF assms] show ?thesis
    by (simp add: query_first_def)
qed

section \<open>Generated keys\<close>

lemma fold_max_lower: "(a::int) \<le> fold max xs a"
  by (induction xs arbitrary: a) (auto intro: order_trans [OF max.cobounded2])

lemma fold_max_upper: "y \<in> set xs \<Longrightarrow> (y::int) \<le> fold max xs a"
proof (induction xs arbitrary: a)
  case Nil
  then show ?case by simp
next
  case (Cons x xs)
  show ?case
  proof (cases "y = x")
    case True
    have "x \<le> max x a" by simp
    also have "\<dots> \<le> fold max xs (max x a)" by (rule fold_max_lower)
    finally show ?thesis using True by simp
  next
    case False
    with Cons show ?thesis by simp
  qed
qed

lemma fold_max_bound: "a \<le> m \<Longrightarrow> \<forall>y \<in> set xs. y \<le> m \<Longrightarrow> fold max xs a \<le> (m::int)"
  by (induction xs arbitrary: a) auto

lemma next_rowid_above: "k \<in> set ks \<Longrightarrow> k < next_rowid ks"
proof (cases ks)
  case Nil
  assume "k \<in> set ks"
  with Nil show ?thesis by simp
next
  case (Cons a as)
  assume "k \<in> set ks"
  with Cons have "k = a \<or> k \<in> set as" by simp
  then have "k \<le> fold max as a"
    using fold_max_lower [of a as] fold_max_upper [of k as a] by auto
  with Cons show ?thesis by (simp add: next_rowid_def)
qed

lemma next_rowid_fresh: "next_rowid ks \<notin> set ks"
  using next_rowid_above [of "next_rowid ks" ks] by auto

lemma next_rowid_bound:
  assumes "0 \<le> m" and "\<forall>k \<in> set ks. k \<le> m"
  shows "next_rowid ks \<le> m + 1"
proof (cases ks)
  case Nil
  with assms show ?thesis by (simp add: next_rowid_def)
next
  case (Cons a as)
  with assms have "fold max as a \<le> m" by (intro fold_max_bound) auto
  with Cons show ?thesis by (simp add: next_rowid_def)
qed

lemma next_rowid_lower:
  assumes "\<forall>k \<in> set ks. sqlite_integer k"
  shows "- (2 ^ 63) \<le> next_rowid ks"
proof (cases ks)
  case Nil
  then show ?thesis by (simp add: next_rowid_def)
next
  case (Cons a as)
  with assms have "- (2 ^ 63) \<le> a" by (simp add: sqlite_integer_def)
  also have "a \<le> fold max as a" by (rule fold_max_lower)
  finally show ?thesis using Cons by (simp add: next_rowid_def)
qed

lemma first_unused_Some:
  "first_unused c ks = Some k \<Longrightarrow> c \<le> k \<and> k < 2 ^ 63 \<and> k \<notin> set ks"
proof (induction c ks rule: first_unused.induct)
  case (1 c ks)
  show ?case
  proof (cases "2 ^ 63 \<le> c")
    case True
    with "1.prems" show ?thesis by (simp add: first_unused.simps [of c ks])
  next
    case range: False
    show ?thesis
    proof (cases "c \<in> set ks")
      case False
      with range "1.prems" show ?thesis by (simp add: first_unused.simps [of c ks])
    next
      case True
      with range "1.prems" have "first_unused (c + 1) ks = Some k"
        by (simp add: first_unused.simps [of c ks])
      with range True "1.IH" have "c + 1 \<le> k \<and> k < 2 ^ 63 \<and> k \<notin> set ks" by simp
      then show ?thesis by simp
    qed
  qed
qed

lemma first_unused_exists:
  "c \<le> c' \<Longrightarrow> c' < 2 ^ 63 \<Longrightarrow> c' \<notin> set ks \<Longrightarrow> \<exists>k. first_unused c ks = Some k"
proof (induction c ks rule: first_unused.induct)
  case (1 c ks)
  from "1.prems" have range: "\<not> 2 ^ 63 \<le> c" by simp
  show ?case
  proof (cases "c \<in> set ks")
    case False
    with range show ?thesis by (simp add: first_unused.simps [of c ks])
  next
    case True
    with "1.prems" have "c \<noteq> c'" by auto
    with "1.prems" have "c + 1 \<le> c'" by simp
    with range True "1.IH" "1.prems" have "\<exists>k. first_unused (c + 1) ks = Some k" by simp
    with range True show ?thesis by (simp add: first_unused.simps [of c ks])
  qed
qed

lemma new_rowid_next: "next_rowid ks < 2 ^ 63 \<Longrightarrow> new_rowid ks = Some (next_rowid ks)"
  by (simp add: new_rowid_def)

lemma new_rowid_Some:
  assumes "\<forall>k \<in> set ks. sqlite_integer k" and "new_rowid ks = Some k"
  shows "sqlite_integer k \<and> k \<notin> set ks"
proof (cases "next_rowid ks < 2 ^ 63")
  case True
  with assms(2) have "k = next_rowid ks" by (simp add: new_rowid_def)
  with True next_rowid_lower [OF assms(1)] next_rowid_fresh [of ks]
  show ?thesis by (simp add: sqlite_integer_def)
next
  case False
  with assms(2) have "first_unused 1 ks = Some k" by (simp add: new_rowid_def)
  from first_unused_Some [OF this] show ?thesis by (simp add: sqlite_integer_def)
qed

lemma new_rowid_exists:
  assumes "0 < c" and "c < 2 ^ 63" and "c \<notin> set ks"
  shows "\<exists>k. new_rowid ks = Some k"
proof (cases "next_rowid ks < 2 ^ 63")
  case True
  then show ?thesis by (simp add: new_rowid_def)
next
  case False
  moreover have "\<exists>k. first_unused 1 ks = Some k"
    using assms by (intro first_unused_exists [of 1 c]) auto
  ultimately show ?thesis by (simp add: new_rowid_def)
qed

lemma instance_keys_range:
  "\<forall>k \<in> set (map (\<lambda>r. sint (Instance_id r)) rows). sqlite_integer k"
  by (simp add: sint_rowid_range)

section \<open>Rows\<close>

lemma find_append_last:
  "k \<notin> f ` set xs \<Longrightarrow> find (\<lambda>r. f r = k) (xs @ [x]) = (if f x = k then Some x else None)"
  by (induction xs) auto

lemma update_all_fields:
  "(r::'n Instance)\<lparr>project_id := project_id u, item_id := item_id u,
      position_x := position_x u, position_y := position_y u, position_z := position_z u,
      rotation_x := rotation_x u, rotation_y := rotation_y u, rotation_z := rotation_z u,
      scale_x := scale_x u, scale_y := scale_y u, scale_z := scale_z u\<rparr>
   = row_of u (Instance_id r)"
  by (cases r) simp

lemma find_map_replace:
  "k \<in> f ` set xs \<Longrightarrow> f y = k \<Longrightarrow>
   find (\<lambda>r. f r = k) (map (\<lambda>r. if f r = k then y else r) xs) = Some y"
  by (induction xs) auto

lemma key_eq_iff:
  "sqlite_integer k \<Longrightarrow>
   Instance_id r = (word_of_int k :: rowid) \<longleftrightarrow> sint (Instance_id r) = k"
  using sint_word_of_int_rowid [of k] by auto

section \<open>What each handler does on each path\<close>

lemma create_instance_success:
  assumes "project_id x \<in> sint ` Project_id ` set (projects db)"
      and "item_id x \<in> sint ` Item_id ` set (items db)"
      and "new_rowid (map (\<lambda>r. sint (Instance_id r)) (instances db)) = Some k"
  shows "create_instance x db =
     (Inr (row_of x (word_of_int k)),
      db\<lparr>instances := instances db @ [row_of x (word_of_int k)]\<rparr>)"
proof -
  obtain p where p: "query_first Project_id (project_id x) (projects db) = Inr (Some p)"
    using query_first_resolved [OF assms(1)] by blast
  obtain i where i: "query_first Item_id (item_id x) (items db) = Inr (Some i)"
    using query_first_resolved [OF assms(2)] by blast
  have k: "sqlite_integer k \<and> k \<notin> set (map (\<lambda>r. sint (Instance_id r)) (instances db))"
    using new_rowid_Some [OF instance_keys_range assms(3)] .
  have "word_of_int k \<notin> Instance_id ` set (instances db)"
  proof
    assume "word_of_int k \<in> Instance_id ` set (instances db)"
    then obtain r where "r \<in> set (instances db)" and "Instance_id r = word_of_int k" by auto
    with k have "sint (Instance_id r) = k" by (simp add: sint_word_of_int_rowid)
    with \<open>r \<in> set (instances db)\<close> k show False by auto
  qed
  then have "find (\<lambda>r. Instance_id r = word_of_int k)
               (instances db @ [row_of x (word_of_int k)]) = Some (row_of x (word_of_int k))"
    by (simp add: find_append_last)
  with p i assms(3) show ?thesis
    by (simp add: create_instance_def add_commit_def refresh_def)
qed

lemma create_instance_rejected:
  assumes "project_id x \<notin> sint ` Project_id ` set (projects db) \<or>
           item_id x \<notin> sint ` Item_id ` set (items db) \<or>
           new_rowid (map (\<lambda>r. sint (Instance_id r)) (instances db)) = None"
  shows "\<exists>e. create_instance x db = (Inl e, db)"
proof (cases "sqlite_integer (project_id x) \<and> sqlite_integer (item_id x)")
  case False
  then show ?thesis
    by (auto simp add: create_instance_def query_first_def)
next
  case True
  then have q: "query_first Project_id (project_id x) (projects db)
                  = Inr (find (\<lambda>r. sint (Project_id r) = project_id x) (projects db))"
               "query_first Item_id (item_id x) (items db)
                  = Inr (find (\<lambda>r. sint (Item_id r) = item_id x) (items db))"
    by (simp_all add: query_first_def)
  show ?thesis
  proof (cases "find (\<lambda>r. sint (Project_id r) = project_id x) (projects db) = None \<or>
                find (\<lambda>r. sint (Item_id r) = item_id x) (items db) = None")
    case True
    with q show ?thesis by (auto simp add: create_instance_def)
  next
    case False
    with assms have "new_rowid (map (\<lambda>r. sint (Instance_id r)) (instances db)) = None"
      by (simp add: find_key_None)
    with q False show ?thesis by (simp add: create_instance_def add_commit_def)
  qed
qed

lemma create_instance_failure:
  assumes "fst (create_instance x db) = Inl e"
  shows "snd (create_instance x db) = db"
proof (cases "project_id x \<notin> sint ` Project_id ` set (projects db) \<or>
              item_id x \<notin> sint ` Item_id ` set (items db) \<or>
              new_rowid (map (\<lambda>r. sint (Instance_id r)) (instances db)) = None")
  case True
  from create_instance_rejected [OF this] show ?thesis by auto
next
  case False
  then obtain k where "new_rowid (map (\<lambda>r. sint (Instance_id r)) (instances db)) = Some k"
    by auto
  with False assms show ?thesis by (simp add: create_instance_success)
qed

lemma create_instance_rows:
  "instances (snd (create_instance x db))
     = instances db @ (case fst (create_instance x db) of Inl e \<Rightarrow> [] | Inr row \<Rightarrow> [row])"
proof (cases "project_id x \<notin> sint ` Project_id ` set (projects db) \<or>
              item_id x \<notin> sint ` Item_id ` set (items db) \<or>
              new_rowid (map (\<lambda>r. sint (Instance_id r)) (instances db)) = None")
  case True
  from create_instance_rejected [OF this] show ?thesis by auto
next
  case False
  then obtain k where "new_rowid (map (\<lambda>r. sint (Instance_id r)) (instances db)) = Some k"
    by auto
  with False show ?thesis by (simp add: create_instance_success)
qed

lemma update_instance_overflow:
  assumes "\<not> sqlite_integer instance_id"
  shows "update_instance instance_id u db = (Inl OverflowError, db)"
  using assms by (simp add: update_instance_def query_first_overflow)

lemma update_instance_no_instance:
  assumes "sqlite_integer instance_id"
      and "instance_id \<notin> sint ` Instance_id ` set (instances db)"
  shows "update_instance instance_id u db = (Inl (HTTPException 404 ''Instance not found''), db)"
  using assms by (simp add: update_instance_def query_first_unresolved)

lemma update_instance_checks_failed:
  assumes "instance_id \<in> sint ` Instance_id ` set (instances db)"
      and "project_id u \<notin> sint ` Project_id ` set (projects db) \<or>
           item_id u \<notin> sint ` Item_id ` set (items db)"
  shows "update_instance instance_id u db =
     (Inl (if \<not> sqlite_integer (project_id u) \<or> \<not> sqlite_integer (item_id u) then OverflowError
           else if project_id u \<notin> sint ` Project_id ` set (projects db)
           then HTTPException 404 ''Project not found''
           else HTTPException 404 ''Item not found''), db)"
proof -
  obtain e where e: "query_first Instance_id instance_id (instances db) = Inr (Some e)"
    using query_first_resolved [OF assms(1)] by blast
  show ?thesis
    using assms(2) e
    by (auto simp add: update_instance_def query_first_def find_key_None)
qed

lemma key_eq_sint: "(a = (b::rowid)) \<longleftrightarrow> (sint a = sint b)"
  by (auto dest: word_of_int_sint_rowid [OF sym])

lemma update_instance_success:
  assumes "instance_id \<in> sint ` Instance_id ` set (instances db)"
      and "project_id u \<in> sint ` Project_id ` set (projects db)"
      and "item_id u \<in> sint ` Item_id ` set (items db)"
  shows "update_instance instance_id u db =
     (Inr (row_of u (word_of_int instance_id)),
      db\<lparr>instances := map (\<lambda>r. if sint (Instance_id r) = instance_id
                                 then row_of u (word_of_int instance_id) else r)
                          (instances db)\<rparr>)"
proof -
  obtain e where e: "query_first Instance_id instance_id (instances db) = Inr (Some e)"
      and ek: "sint (Instance_id e) = instance_id"
    using query_first_resolved [OF assms(1)] by blast
  obtain p where p: "query_first Project_id (project_id u) (projects db) = Inr (Some p)"
    using query_first_resolved [OF assms(2)] by blast
  obtain i where i: "query_first Item_id (item_id u) (items db) = Inr (Some i)"
    using query_first_resolved [OF assms(3)] by blast
  let ?w = "Instance_id e"
  let ?rows = "map (\<lambda>r. if Instance_id r = ?w then row_of u ?w else r) (instances db)"
  have w: "word_of_int instance_id = ?w"
    using ek by (rule word_of_int_sint_rowid)
  have step: "update_instance instance_id u db
                = (refresh (db\<lparr>instances := ?rows\<rparr>) ?w, db\<lparr>instances := ?rows\<rparr>)"
    using e p i
    by (simp add: update_instance_def update_commit_def Let_def update_all_fields)
  have "?w \<in> Instance_id ` set (instances db)"
    using assms(1) ek by (auto simp: key_eq_sint)
  then have "find (\<lambda>r. Instance_id r = ?w) ?rows = Some (row_of u ?w)"
    by (rule find_map_replace) simp
  then have ref: "refresh (db\<lparr>instances := ?rows\<rparr>) ?w = Inr (row_of u ?w)"
    by (simp add: refresh_def)
  have same: "?rows = map (\<lambda>r. if sint (Instance_id r) = instance_id then row_of u ?w else r)
                        (instances db)"
    unfolding key_eq_sint [of _ ?w] ek ..
  from step ref
  have "update_instance instance_id u db = (Inr (row_of u ?w), db\<lparr>instances := ?rows\<rparr>)"
    by (simp only:)
  then show ?thesis
    unfolding w same .
qed

lemma delete_instance_success:
  assumes "instance_id \<in> sint ` Instance_id ` set (instances db)"
  shows "delete_instance instance_id db =
     (Inr [(''message'', ''Instance deleted successfully'')],
      db\<lparr>instances := filter (\<lambda>r. sint (Instance_id r) \<noteq> instance_id) (instances db)\<rparr>)"
proof -
  obtain e where e: "query_first Instance_id instance_id (instances db) = Inr (Some e)"
      and ek: "sint (Instance_id e) = instance_id"
    using query_first_resolved [OF assms] by blast
  have same: "filter (\<lambda>r. Instance_id r \<noteq> Instance_id e) (instances db)
            = filter (\<lambda>r. sint (Instance_id r) \<noteq> instance_id) (instances db)"
    unfolding key_eq_sint [of _ "Instance_id e"] ek ..
  have "delete_instance instance_id db =
     (Inr [(''message'', ''Instance deleted successfully'')],
      db\<lparr>instances := filter (\<lambda>r. Instance_id r \<noteq> Instance_id e) (instances db)\<rparr>)"
    using e by (simp add: delete_instance_def delete_commit_def)
  then show ?thesis unfolding same .
qed

lemma delete_instance_missing:
  assumes "instance_id \<notin> sint ` Instance_id ` set (instances db)"
  shows "delete_instance instance_id db =
     (Inl (if sqlite_integer instance_id then HTTPException 404 ''Instance not found''
           else OverflowError), db)"
proof (cases "sqlite_integer instance_id")
  case True
  with assms show ?thesis by (simp add: delete_instance_def query_first_unresolved)
next
  case False
  then show ?thesis by (simp add: delete_instance_def query_first_overflow)
qed

lemma create_all_rows:
  "instances (snd (create_all xs db)) = instances db @ fst (create_all xs db)"
proof (induction xs arbitrary: db)
  case Nil
  then show ?case by simp
next
  case (Cons x xs)
  obtain r db' where c: "create_instance x db = (r, db')" by (cases "create_instance x db")
  have rows: "instances db' = instances db @ (case r of Inl e \<Rightarrow> [] | Inr row \<Rightarrow> [row])"
    using create_instance_rows [of x db] c by simp
  show ?case using Cons [of db'] c rows
    by (cases r) (auto split: prod.splits)
qed

lemma create_all_length:
  assumes "\<forall>x \<in> set xs. project_id x \<in> sint ` Project_id ` set (projects db) \<and>
                          item_id x \<in> sint ` Item_id ` set (items db)"
      and "0 \<le> m"
      and "\<forall>r \<in> set (instances db). sint (Instance_id r) \<le> m"
      and "m + int (length xs) < 2 ^ 63"
  shows "length (fst (create_all xs db)) = length xs"
  using assms
proof (induction xs arbitrary: db m)
  case Nil
  then show ?case by simp
next
  case (Cons x xs)
  let ?ks = "map (\<lambda>r. sint (Instance_id r)) (instances db)"
  let ?k = "next_rowid ?ks"
  let ?db' = "db\<lparr>instances := instances db @ [row_of x (word_of_int ?k)]\<rparr>"
  have le: "?k \<le> m + 1"
    using Cons.prems(2,3) by (intro next_rowid_bound) auto
  with Cons.prems(4) have lt: "?k < 2 ^ 63" by simp
  then have new: "new_rowid ?ks = Some ?k" by (rule new_rowid_next)
  have range: "sqlite_integer ?k"
    using new_rowid_Some [OF instance_keys_range new] by simp
  have c: "create_instance x db = (Inr (row_of x (word_of_int ?k)), ?db')"
    using Cons.prems(1) new by (simp add: create_instance_success)
  have v: "\<forall>x \<in> set xs. project_id x \<in> sint ` Project_id ` set (projects ?db') \<and>
                          item_id x \<in> sint ` Item_id ` set (items ?db')"
    using Cons.prems(1) by simp
  have b: "\<forall>r \<in> set (instances ?db'). sint (Instance_id r) \<le> m + 1"
    using Cons.prems(3) le range by (auto simp: sint_word_of_int_rowid)
  have "length (fst (create_all xs ?db')) = length xs"
    using v _ b
  proof (rule Cons.IH)
    show "0 \<le> m + 1" using Cons.prems(2) by simp
    show "m + 1 + int (length xs) < 2 ^ 63" using Cons.prems(4) by simp
  qed
  then show ?case using c by (auto split: prod.splits)
qed

section \<open>The claims\<close>




text \<open>
  C2. An update whose instance, project and item all resolve returns the row made of the
  request's eleven fields under the targeted key, with nothing taken from the prior row;
  the table afterwards holds that row wherever a row had the targeted key, every other row
  as before, and a query for the key finds it.
\<close>

theorem update_instance_full_replace:
  assumes "instance_id \<in> sint ` Instance_id ` set (instances db)"
      and "project_id u \<in> sint ` Project_id ` set (projects db)"
      and "item_id u \<in> sint ` Item_id ` set (items db)"
  shows "fst (update_instance instance_id u db) = Inr (row_of u (word_of_int instance_id)) \<and>
         instances (snd (update_instance instance_id u db))
           = map (\<lambda>r. if sint (Instance_id r) = instance_id
                       then row_of u (word_of_int instance_id) else r) (instances db) \<and>
         find (\<lambda>r. sint (Instance_id r) = instance_id)
              (instances (snd (update_instance instance_id u db)))
           = Some (row_of u (word_of_int instance_id))"
proof -
  have "sqlite_integer instance_id"
    using assms(1) by (rule stored_key_range)
  then have "sint (Instance_id (row_of u (word_of_int instance_id))) = instance_id"
    by (simp add: sint_word_of_int_rowid)
  moreover have "instance_id \<in> (\<lambda>r. sint (Instance_id r)) ` set (instances db)"
    using assms(1) by auto
  ultimately have "find (\<lambda>r. sint (Instance_id r) = instance_id)
          (map (\<lambda>r. if sint (Instance_id r) = instance_id
                     then row_of u (word_of_int instance_id) else r) (instances db))
        = Some (row_of u (word_of_int instance_id))"
    by (intro find_map_replace)
  then show ?thesis
    by (simp add: update_instance_success [OF assms])
qed

theorem update_instance_full_replace_witness:
  "(1::int) \<in> sint ` Instance_id ` set (instances placed_db) \<and>
   project_id (seed_request\<lparr>position_x := 5\<rparr>) \<in> sint ` Project_id ` set (projects placed_db) \<and>
   item_id (seed_request\<lparr>position_x := 5\<rparr>) \<in> sint ` Item_id ` set (items placed_db) \<and>
   fst (update_instance 1 (seed_request\<lparr>position_x := 5\<rparr>) placed_db)
     = Inr \<lparr>project_id = 1, item_id = 1,
            position_x = 5, position_y = 0, position_z = 0,
            rotation_x = 0, rotation_y = 0, rotation_z = 0,
            scale_x = 1, scale_y = 1, scale_z = 1, Instance_id = 1\<rparr>"
proof -
  have h1: "(1::int) \<in> sint ` Instance_id ` set (instances placed_db)"
    by (simp add: placed_db_def seed_db_def)
  have h2: "project_id (seed_request\<lparr>position_x := 5\<rparr>) \<in> sint ` Project_id ` set (projects placed_db)"
    by (simp add: placed_db_def seed_db_def seed_request_def)
  have h3: "item_id (seed_request\<lparr>position_x := 5\<rparr>) \<in> sint ` Item_id ` set (items placed_db)"
    by (simp add: placed_db_def seed_db_def seed_request_def)
  from update_instance_full_replace [OF h1 h2 h3] h1 h2 h3
  show ?thesis by (simp add: seed_request_def)
qed

text \<open>
  C3. For a create request whose project and item both resolve, the call succeeds, and
  reading the created row back by its assigned key in the resulting session returns
  exactly the row that create returned (the key included). The engine must have a key
  left to assign: some positive 64-bit key is not in use.
\<close>

theorem create_get_roundtrip:
  assumes "project_id x \<in> sint ` Project_id ` set (projects db)"
      and "item_id x \<in> sint ` Item_id ` set (items db)"
      and "\<exists>c. 0 < c \<and> c < 2 ^ 63 \<and> c \<notin> sint ` Instance_id ` set (instances db)"
  shows "\<exists>row db'. create_instance x db = (Inr row, db') \<and>
                    get_instance (sint (Instance_id row)) db' = (Inr row, db')"
proof -
  let ?ks = "map (\<lambda>r. sint (Instance_id r)) (instances db)"
  obtain c where "0 < c" and "c < 2 ^ 63" and "c \<notin> set ?ks"
    using assms(3) by auto
  then obtain k where new: "new_rowid ?ks = Some k"
    using new_rowid_exists [of c ?ks] by blast
  have k: "sqlite_integer k \<and> k \<notin> set ?ks"
    using new_rowid_Some [OF instance_keys_range new] .
  let ?row = "row_of x (word_of_int k)"
  let ?db' = "db\<lparr>instances := instances db @ [?row]\<rparr>"
  have key: "sint (Instance_id ?row) = k"
    using k by (simp add: sint_word_of_int_rowid)
  have "k \<notin> (\<lambda>r. sint (Instance_id r)) ` set (instances db)"
    using k by simp
  then have "find (\<lambda>r. sint (Instance_id r) = k) (instances db @ [?row]) = Some ?row"
    using key by (simp add: find_append_last)
  then have "get_instance k ?db' = (Inr ?row, ?db')"
    using k by (simp add: get_instance_def query_first_def)
  then have "get_instance (sint (Instance_id ?row)) ?db' = (Inr ?row, ?db')"
    unfolding key .
  moreover have "create_instance x db = (Inr ?row, ?db')"
    using assms(1,2) new by (rule create_instance_success)
  ultimately show ?thesis by blast
qed

theorem create_get_roundtrip_witness:
  "project_id seed_request \<in> sint ` Project_id ` set (projects seed_db) \<and>
   item_id seed_request \<in> sint ` Item_id ` set (items seed_db) \<and>
   (1::int) \<notin> sint ` Instance_id ` set (instances seed_db) \<and>
   (\<exists>row db'. create_instance seed_request seed_db = (Inr row, db') \<and>
              get_instance (sint (Instance_id row)) db' = (Inr row, db'))"
proof -
  have h1: "project_id seed_request \<in> sint ` Project_id ` set (projects seed_db)"
    by (simp add: seed_db_def seed_request_def)
  have h2: "item_id seed_request \<in> sint ` Item_id ` set (items seed_db)"
    by (simp add: seed_db_def seed_request_def)
  have free: "(1::int) \<notin> sint ` Instance_id ` set (instances seed_db)"
    by (simp add: seed_db_def)
  then have h3: "\<exists>c. 0 < c \<and> c < 2 ^ 63 \<and> c \<notin> sint ` Instance_id ` set (instances seed_db)"
    by (intro exI [of _ 1]) simp
  from create_get_roundtrip [OF h1 h2 h3] h1 h2 free
  show ?thesis by blast
qed




text \<open>
  C5. An update that fails one of its existence checks (instance, project or item
  unresolved) writes nothing: the session after the call is the session before it, so
  every table and every field of every row, the targeted one included, is as it was.
\<close>

theorem update_instance_failure_no_mutation:
  assumes "instance_id \<notin> sint ` Instance_id ` set (instances db) \<or>
           project_id u \<notin> sint ` Project_id ` set (projects db) \<or>
           item_id u \<notin> sint ` Item_id ` set (items db)"
  shows "snd (update_instance instance_id u db) = db"
proof (cases "instance_id \<in> sint ` Instance_id ` set (instances db)")
  case True
  with assms show ?thesis by (simp add: update_instance_checks_failed)
next
  case False
  then show ?thesis
    by (cases "sqlite_integer instance_id")
       (simp_all add: update_instance_no_instance update_instance_overflow)
qed

theorem update_instance_failure_no_mutation_witness:
  "item_id (seed_request\<lparr>position_x := 5, item_id := 9\<rparr>) \<notin> sint ` Item_id ` set (items placed_db) \<and>
   snd (update_instance 1 (seed_request\<lparr>position_x := 5, item_id := 9\<rparr>) placed_db) = placed_db"
proof -
  have h: "item_id (seed_request\<lparr>position_x := 5, item_id := 9\<rparr>) \<notin> sint ` Item_id ` set (items placed_db)"
    by (simp add: placed_db_def seed_db_def seed_request_def)
  then have "(1::int) \<notin> sint ` Instance_id ` set (instances placed_db) \<or>
    project_id (seed_request\<lparr>position_x := 5, item_id := 9\<rparr>) \<notin> sint ` Project_id ` set (projects placed_db) \<or>
    item_id (seed_request\<lparr>position_x := 5, item_id := 9\<rparr>) \<notin> sint ` Item_id ` set (items placed_db)"
    by blast
  from update_instance_failure_no_mutation [OF this] h
  show ?thesis by blast
qed

text \<open>
  C6. Deleting a key under which a row is stored succeeds with the confirmation message
  and leaves the table without any row of that key, all other rows kept; deleting the
  same key again in the resulting session raises the 404 exception "Instance not found"
  and changes nothing.
\<close>

theorem delete_instance_twice:
  assumes "instance_id \<in> sint ` Instance_id ` set (instances db)"
  shows "fst (delete_instance instance_id db) = Inr [(''message'', ''Instance deleted successfully'')] \<and>
         instances (snd (delete_instance instance_id db))
           = filter (\<lambda>r. sint (Instance_id r) \<noteq> instance_id) (instances db) \<and>
         instance_id \<notin> sint ` Instance_id ` set (instances (snd (delete_instance instance_id db))) \<and>
         delete_instance instance_id (snd (delete_instance instance_id db))
           = (Inl (HTTPException 404 ''Instance not found''), snd (delete_instance instance_id db))"
proof -
  let ?db' = "db\<lparr>instances := filter (\<lambda>r. sint (Instance_id r) \<noteq> instance_id) (instances db)\<rparr>"
  have gone: "instance_id \<notin> sint ` Instance_id ` set (instances ?db')" by auto
  have range: "sqlite_integer instance_id"
    using assms by (rule stored_key_range)
  show ?thesis
    using gone range delete_instance_missing [OF gone]
    by (simp add: delete_instance_success [OF assms])
qed

theorem delete_instance_twice_witness:
  "(1::int) \<in> sint ` Instance_id ` set (instances placed_db) \<and>
   fst (delete_instance 1 placed_db) = Inr [(''message'', ''Instance deleted successfully'')] \<and>
   delete_instance 1 (snd (delete_instance 1 placed_db))
     = (Inl (HTTPException 404 ''Instance not found''), snd (delete_instance 1 placed_db))"
proof -
  have h: "(1::int) \<in> sint ` Instance_id ` set (instances placed_db)"
    by (simp add: placed_db_def seed_db_def)
  from delete_instance_twice [OF h] h
  show ?thesis by blast
qed

text \<open>
  C7. Listing has no failing path and returns the stored Instance rows as they are: none
  when the table is empty; and when a client starts from an empty table and issues create
  requests, exactly the rows the successful creates returned, in order, so exactly N rows
  after N requests that all resolve (N below \<open>2 ^ 63\<close>, the number of keys the engine
  hands out one after the other).
\<close>

theorem list_instances_exact:
  "list_instances db = (instances db, db) \<and>
   (instances db = [] \<longrightarrow> fst (list_instances db) = []) \<and>
   (instances db = [] \<longrightarrow>
      fst (list_instances (snd (create_all xs db))) = fst (create_all xs db)) \<and>
   (instances db = [] \<and> int (length xs) < 2 ^ 63 \<and>
    (\<forall>x \<in> set xs. project_id x \<in> sint ` Project_id ` set (projects db) \<and>
                    item_id x \<in> sint ` Item_id ` set (items db)) \<longrightarrow>
      length (fst (list_instances (snd (create_all xs db)))) = length xs)"
proof -
  have "length (fst (create_all xs db)) = length xs"
    if "instances db = []" and "int (length xs) < 2 ^ 63"
      and "\<forall>x \<in> set xs. project_id x \<in> sint ` Project_id ` set (projects db) \<and>
                          item_id x \<in> sint ` Item_id ` set (items db)"
    using that create_all_length [of xs db 0] by simp
  then show ?thesis
    using create_all_rows [of xs db] by (simp add: list_instances_def)
qed

theorem list_instances_exact_witness:
  "instances seed_db = [] \<and>
   project_id seed_request \<in> sint ` Project_id ` set (projects seed_db) \<and>
   item_id seed_request \<in> sint ` Item_id ` set (items seed_db) \<and>
   project_id (seed_request\<lparr>position_x := 3\<rparr>) \<in> sint ` Project_id ` set (projects seed_db) \<and>
   item_id (seed_request\<lparr>position_x := 3\<rparr>) \<in> sint ` Item_id ` set (items seed_db) \<and>
   fst (list_instances seed_db) = [] \<and>
   fst (list_instances (snd (create_all [seed_request, seed_request\<lparr>position_x := 3\<rparr>] seed_db)))
     = fst (create_all [seed_request, seed_request\<lparr>position_x := 3\<rparr>] seed_db) \<and>
   length (fst (list_instances
             (snd (create_all [seed_request, seed_request\<lparr>position_x := 3\<rparr>] seed_db)))) = 2"
proof -
  have h1: "instances seed_db = []"
    by (simp add: seed_db_def)
  have h2: "project_id seed_request \<in> sint ` Project_id ` set (projects seed_db) \<and>
            item_id seed_request \<in> sint ` Item_id ` set (items seed_db)"
    by (simp add: seed_db_def seed_request_def)
  have h3: "project_id (seed_request\<lparr>position_x := 3\<rparr>) \<in> sint ` Project_id ` set (projects seed_db) \<and>
            item_id (seed_request\<lparr>position_x := 3\<rparr>) \<in> sint ` Item_id ` set (items seed_db)"
    by (simp add: seed_db_def seed_request_def)
  from h2 h3 have h4: "\<forall>x \<in> set [seed_request, seed_request\<lparr>position_x := 3\<rparr>].
      project_id x \<in> sint ` Project_id ` set (projects seed_db) \<and>
      item_id x \<in> sint ` Item_id ` set (items seed_db)"
    by simp
  have len: "length [seed_request, seed_request\<lparr>position_x := 3\<rparr>] = 2"
    by simp
  have h5: "int (length [seed_request, seed_request\<lparr>position_x := 3\<rparr>]) < 2 ^ 63"
    by simp
  from list_instances_exact [of seed_db "[seed_request, seed_request\<lparr>position_x := 3\<rparr>]"]
    h1 h2 h3 h4 h5
  show ?thesis unfolding len by blast
qed

text \<open>
  C8. No handler changes the key of a stored row. Position by position, the keys in the
  table after a create are the keys before it, followed by the key of the new row if one
  was made; after an update they are the keys before it: the commit writes back every
  attribute of the loaded object, its key included, and the handler has assigned all
  attributes but that one; get and list leave the session as it is; a delete keeps every
  row of another key unchanged and in place.
\<close>

theorem instance_id_immutable:
  "map Instance_id (instances (snd (create_instance x db)))
     = map Instance_id (instances db)
       @ (case fst (create_instance x db) of Inl e \<Rightarrow> [] | Inr row \<Rightarrow> [Instance_id row]) \<and>
   map Instance_id (instances (snd (update_instance k u db))) = map Instance_id (instances db) \<and>
   snd (get_instance k db) = db \<and>
   snd (list_instances db) = db \<and>
   instances (snd (delete_instance k db))
     = filter (\<lambda>r. sint (Instance_id r) \<noteq> k) (instances db)"
proof -
  have c: "map Instance_id (instances (snd (create_instance x db)))
     = map Instance_id (instances db)
       @ (case fst (create_instance x db) of Inl e \<Rightarrow> [] | Inr row \<Rightarrow> [Instance_id row])"
    by (simp add: create_instance_rows split: sum.splits)
  have u: "map Instance_id (instances (snd (update_instance k u db))) = map Instance_id (instances db)"
  proof (cases "k \<in> sint ` Instance_id ` set (instances db) \<and>
                project_id u \<in> sint ` Project_id ` set (projects db) \<and>
                item_id u \<in> sint ` Item_id ` set (items db)")
    case True
    have "map (Instance_id \<circ> (\<lambda>r. if sint (Instance_id r) = k then row_of u (word_of_int k) else r))
            (instances db) = map Instance_id (instances db)"
      by (rule map_cong) (auto dest: word_of_int_sint_rowid)
    with True show ?thesis by (simp add: update_instance_success)
  next
    case False
    then have "snd (update_instance k u db) = db"
      by (cases "k \<in> sint ` Instance_id ` set (instances db)"; cases "sqlite_integer k")
         (auto simp add: update_instance_checks_failed update_instance_no_instance
            update_instance_overflow)
    then show ?thesis by simp
  qed
  have g: "snd (get_instance k db) = db"
    by (simp add: get_instance_def split: sum.splits option.splits)
  have l: "snd (list_instances db) = db"
    by (simp add: list_instances_def)
  have d: "instances (snd (delete_instance k db))
             = filter (\<lambda>r. sint (Instance_id r) \<noteq> k) (instances db)"
  proof (cases "k \<in> sint ` Instance_id ` set (instances db)")
    case True
    then show ?thesis by (simp add: delete_instance_success)
  next
    case False
    then have "filter (\<lambda>r. sint (Instance_id r) \<noteq> k) (instances db) = instances db"
      by (auto simp: filter_id_conv)
    with False show ?thesis by (simp add: delete_instance_missing)
  qed
  from c u g l d show ?thesis by blast
qed

text \<open>
  C10. Reading writes nothing: the session after \<^verbatim>\<open>get_instance\<close>, whether it
  returns a row or raises, and after \<^verbatim>\<open>list_instances\<close> is the session before the
  call.
\<close>

theorem get_list_read_only:
  "snd (get_instance instance_id db) = db \<and> snd (list_instances db) = db"
  by (simp add: get_instance_def list_instances_def split: sum.splits option.splits)

end
